theory Spec2Isabelle
  imports Main
begin

section \<open>JavaScript values\<close>

text \<open>
  The values that reach the library (\<^verbatim>\<open>lib/index.js\<close>). A string is the list of its
  code units, each below 256. A number \<open>JNum n\<close> is the safe integer \<open>n\<close>, of magnitude
  below \<open>2^53\<close>, whose text is its decimal form; other numbers are not among the values.
  A \<open>JDate\<close> is a Date object and a \<open>JBuffer\<close> a Buffer, each kept as the text that
  string concatenation gives for it. A \<open>JObj\<close> is a plain object: its own enumerable
  properties in the order they were created, with distinct keys. A \<open>JError\<close> is an
  \<^verbatim>\<open>Error\<close> object with its message. Functions are not among the values: a callback is
  an argument of its own.
\<close>

datatype jsval =
    JUndefined
  | JNull
  | JBool bool
  | JNum int
  | JStr string
  | JDate string
  | JBuffer string
  | JArr "jsval list"
  | JObj "(string \<times> jsval) list"
  | JError string

text \<open>
  What a call can raise. \<open>Unmodelled\<close> is not an exception of the program: it marks the
  places where the result depends on the names that the built-in prototypes of the
  running environment define (a property that is not the value's own), and where this
  theory therefore does not follow the code. No statement below draws a conclusion
  from it.
\<close>

datatype js_exn =
    ReferenceError string
  | TypeError string
  | Thrown jsval
  | Unmodelled string

definition and_then :: "js_exn + 'a \<Rightarrow> ('a \<Rightarrow> js_exn + 'b) \<Rightarrow> js_exn + 'b" where
  "and_then m f = (case m of Inl e \<Rightarrow> Inl e | Inr x \<Rightarrow> f x)"

fun truthy :: "jsval \<Rightarrow> bool" where
  "truthy JUndefined = False"
| "truthy JNull = False"
| "truthy (JBool b) = b"
| "truthy (JNum n) = (n \<noteq> 0)"
| "truthy (JStr s) = (s \<noteq> [])"
| "truthy _ = True"

fun typeof :: "jsval \<Rightarrow> string" where
  "typeof JUndefined = ''undefined''"
| "typeof (JBool _) = ''boolean''"
| "typeof (JNum _) = ''number''"
| "typeof (JStr _) = ''string''"
| "typeof _ = ''object''"

fun is_array :: "jsval \<Rightarrow> bool" where
  "is_array (JArr _) = True"
| "is_array _ = False"

subsection \<open>Conversion to text\<close>

fun join :: "string \<Rightarrow> string list \<Rightarrow> string" where
  "join sep [] = []"
| "join sep [x] = x"
| "join sep (x # y # ys) = x @ sep @ join sep (y # ys)"

definition digit_char :: "int \<Rightarrow> char" where
  "digit_char d = ''0123456789'' ! nat d"

function dec :: "int \<Rightarrow> string" where
  "dec n = (if n < 10 then [digit_char n] else dec (n div 10) @ [digit_char (n mod 10)])"
  by pat_completeness auto
termination
  by (relation "measure nat") auto

declare dec.simps [simp del]

definition number_to_string :: "int \<Rightarrow> string" where
  "number_to_string i = (if i < 0 then ''-'' @ dec (- i) else dec i)"

text \<open>
  \<open>to_string\<close> is the conversion that \<^verbatim>\<open>'' + v\<close> applies; inside an array,
  \<^verbatim>\<open>undefined\<close> and \<^verbatim>\<open>null\<close> print as nothing.
\<close>

fun to_string :: "jsval \<Rightarrow> string" and element_to_string :: "jsval \<Rightarrow> string" where
  "to_string JUndefined = ''undefined''"
| "to_string JNull = ''null''"
| "to_string (JBool b) = (if b then ''true'' else ''false'')"
| "to_string (JNum n) = number_to_string n"
| "to_string (JStr s) = s"
| "to_string (JDate s) = s"
| "to_string (JBuffer s) = s"
| "to_string (JArr xs) = join '','' (map element_to_string xs)"
| "to_string (JObj ps) = ''[object Object]''"
| "to_string (JError m) = (if m = [] then ''Error'' else ''Error: '' @ m)"
| "element_to_string JUndefined = []"
| "element_to_string JNull = []"
| "element_to_string v = to_string v"

section \<open>The escaper\<close>

text \<open>
  \<^verbatim>\<open>SqlStringEscape (val, stringifyObjects, timeZone)\<close>. The file never binds the
  identifier \<^verbatim>\<open>SqlString\<close>, so each branch that reads it raises a ReferenceError
  before it evaluates anything else.
\<close>

definition escape_char :: "char \<Rightarrow> string" where
  "escape_char s =
     (if s = CHR 0x00 then [CHR 0x5C, CHR ''0'']
      else if s = CHR 0x0A then [CHR 0x5C, CHR ''n'']
      else if s = CHR 0x0D then [CHR 0x5C, CHR ''r'']
      else if s = CHR 0x08 then [CHR 0x5C, CHR ''b'']
      else if s = CHR 0x09 then [CHR 0x5C, CHR ''t'']
      else if s = CHR 0x1A then [CHR 0x5C, CHR ''Z'']
      else if s = CHR 0x5C \<or> s = CHR 0x27 \<or> s = CHR 0x22 then [CHR 0x5C, s]
      else [s])"

definition replace_special :: "string \<Rightarrow> string" where
  "replace_special val = concat (map escape_char val)"

definition quote :: "string \<Rightarrow> string" where
  "quote val = [CHR 0x27] @ val @ [CHR 0x27]"

fun SqlStringEscape :: "jsval \<Rightarrow> bool \<Rightarrow> jsval \<Rightarrow> js_exn + string" where
  "SqlStringEscape JUndefined stringifyObjects timeZone = Inr ''NULL''"
| "SqlStringEscape JNull stringifyObjects timeZone = Inr ''NULL''"
| "SqlStringEscape (JBool val) stringifyObjects timeZone = Inr (if val then ''true'' else ''false'')"
| "SqlStringEscape (JNum val) stringifyObjects timeZone = Inr (number_to_string val)"
| "SqlStringEscape (JDate d) stringifyObjects timeZone = Inl (ReferenceError ''SqlString'')"
| "SqlStringEscape (JBuffer bs) stringifyObjects timeZone = Inl (ReferenceError ''SqlString'')"
| "SqlStringEscape (JArr xs) stringifyObjects timeZone = Inl (ReferenceError ''SqlString'')"
| "SqlStringEscape (JStr val) stringifyObjects timeZone = Inr (quote (replace_special val))"
| "SqlStringEscape val stringifyObjects timeZone =
     (if stringifyObjects then Inr (quote (replace_special (to_string val)))
      else Inl (ReferenceError ''SqlString''))"

text \<open>
  The reading of a quoted literal by the server: after the opening quote, a backslash
  takes the next character with it, and the first quote that no backslash takes ends
  the literal. \<open>closes_early body\<close> says that this happens inside \<open>body\<close>, or that
  \<open>body\<close> ends in a backslash that would take the closing quote.
\<close>

fun closes_early :: "string \<Rightarrow> bool" where
  "closes_early [] = False"
| "closes_early [c] = (c = CHR 0x5C \<or> c = CHR 0x27)"
| "closes_early (c # d # cs) =
     (if c = CHR 0x5C then closes_early cs
      else if c = CHR 0x27 then True
      else closes_early (d # cs))"


section \<open>Properties of objects\<close>

text \<open>
  An array index is a key that is the decimal form of a number below \<open>2^32 - 1\<close>.
  Enumeration (\<^verbatim>\<open>for ... in\<close>, \<^verbatim>\<open>Object.keys\<close>) visits the array indices of an
  object first, in ascending order, and then the other keys in the order of their creation.
\<close>

definition digits_value :: "string \<Rightarrow> int" where
  "digits_value s = foldl (\<lambda>n c. 10 * n + (of_char c - 48)) 0 s"

definition is_array_index :: "string \<Rightarrow> bool" where
  "is_array_index k = (k = dec (digits_value k) \<and> digits_value k < 4294967295)"

definition own_keys :: "string list \<Rightarrow> string list" where
  "own_keys ks = sort_key digits_value (filter is_array_index ks)
                 @ filter (\<lambda>k. \<not> is_array_index k) ks"

definition index_keys :: "nat \<Rightarrow> string list" where
  "index_keys n = map (\<lambda>i. dec (int i)) [0..<n]"

text \<open>The names that every plain object inherits from \<^verbatim>\<open>Object.prototype\<close>.\<close>

definition object_prototype_names :: "string list" where
  "object_prototype_names =
     [''constructor'', ''__defineGetter__'', ''__defineSetter__'', ''hasOwnProperty'',
      ''__lookupGetter__'', ''__lookupSetter__'', ''isPrototypeOf'', ''propertyIsEnumerable'',
      ''toString'', ''valueOf'', ''__proto__'', ''toLocaleString'']"

text \<open>\<^verbatim>\<open>for (var i in w)\<close>: the keys visited, in order.\<close>

fun for_in :: "jsval \<Rightarrow> js_exn + string list" where
  "for_in (JObj ps) = Inr (own_keys (map fst ps))"
| "for_in (JArr xs) = Inr (index_keys (length xs))"
| "for_in (JStr s) = Inr (index_keys (length s))"
| "for_in (JBuffer bs) = Inl (Unmodelled ''enumeration of a Buffer'')"
| "for_in _ = Inr []"

text \<open>\<^verbatim>\<open>w[k]\<close>: own properties, and the failure on \<^verbatim>\<open>undefined\<close> and \<^verbatim>\<open>null\<close>.\<close>

definition element_at :: "'a list \<Rightarrow> string \<Rightarrow> ('a \<Rightarrow> jsval) \<Rightarrow> js_exn + jsval" where
  "element_at xs k f =
     (if is_array_index k
      then (if digits_value k < int (length xs) then Inr (f (xs ! nat (digits_value k))) else Inr JUndefined)
      else Inl (Unmodelled ''inherited property''))"

fun get_prop :: "jsval \<Rightarrow> string \<Rightarrow> js_exn + jsval" where
  "get_prop JUndefined k = Inl (TypeError ''Cannot read property of undefined'')"
| "get_prop JNull k = Inl (TypeError ''Cannot read property of null'')"
| "get_prop (JObj ps) k =
     (case map_of ps k of
        Some v \<Rightarrow> Inr v
      | None \<Rightarrow> if k \<in> set object_prototype_names then Inl (Unmodelled ''inherited property'')
                else Inr JUndefined)"
| "get_prop (JArr xs) k = element_at xs k (\<lambda>x. x)"
| "get_prop (JStr s) k = element_at s k (\<lambda>c. JStr [c])"
| "get_prop (JBuffer s) k = Inl (Unmodelled ''property of a Buffer'')"
| "get_prop _ k = element_at ([] :: jsval list) k (\<lambda>x. x)"

fun map_exn :: "('a \<Rightarrow> js_exn + 'b) \<Rightarrow> 'a list \<Rightarrow> js_exn + 'b list" where
  "map_exn f [] = Inr []"
| "map_exn f (x # xs) = and_then (f x) (\<lambda>y. and_then (map_exn f xs) (\<lambda>ys. Inr (y # ys)))"

section \<open>The condition compiler\<close>

definition idx :: "jsval list \<Rightarrow> nat \<Rightarrow> jsval" where
  "idx w i = (if i < length w then w ! i else JUndefined)"

definition wrap :: "string \<Rightarrow> string" where
  "wrap ret = '' ('' @ ret @ '') ''"

function parseArrayCondition :: "jsval \<Rightarrow> js_exn + string"
  and parse_each :: "jsval list \<Rightarrow> js_exn + string list" where
  "parseArrayCondition w =
     (case w of
        JArr ws \<Rightarrow>
          (if idx ws 0 = JStr ''$and'' \<or> idx ws 0 = JStr ''$or'' then
             and_then (parse_each (drop 1 ws))
               (\<lambda>rs. Inr (wrap (join ('' '' @ (if idx ws 0 = JStr ''$and'' then ''AND'' else ''OR'') @ '' '') rs)))
           else if idx ws 0 = JStr ''$not'' then
             and_then (parseArrayCondition (idx ws 1)) (\<lambda>r. Inr (wrap (''NOT '' @ r)))
           else if length ws = 0 then Inr (wrap (to_string (JBool False)))
           else if length ws = 1 then Inr (wrap (to_string w))
           else if length ws = 2 then
             and_then (parseArrayCondition (idx ws 1))
               (\<lambda>r. Inr (wrap (''`'' @ to_string (idx ws 0) @ ''`='' @ r)))
           else
             and_then (parseArrayCondition (idx ws 2))
               (\<lambda>r. Inr (wrap (''`'' @ to_string (idx ws 0) @ ''` '' @ to_string (idx ws 1) @ '' '' @ r))))
      | _ \<Rightarrow> SqlStringEscape w False JUndefined)"
| "parse_each [] = Inr []"
| "parse_each (x # xs) =
     and_then (parseArrayCondition x) (\<lambda>r. and_then (parse_each xs) (\<lambda>rs. Inr (r # rs)))"
  by pat_completeness auto
termination
proof (relation "measure (\<lambda>a. case a of Inl w \<Rightarrow> size w | Inr ws \<Rightarrow> size_list size ws)")
  have mem: "size x \<le> size_list size w" if "x \<in> set w" for x :: jsval and w
    using that by (induction w) auto
  have at: "size (idx w i) \<le> size_list size w" for w i
  proof (cases "i < length w")
    case True
    then have "w ! i \<in> set w" by simp
    with True show ?thesis by (simp add: idx_def mem)
  next
    case False
    then show ?thesis by (simp add: idx_def)
  qed
  have rest: "size_list size (drop 1 w) \<le> size_list size w" for w :: "jsval list"
    by (cases w) simp_all
  show "wf (measure (\<lambda>a. case a of Inl w \<Rightarrow> size w | Inr ws \<Rightarrow> size_list size ws))"
    by simp
  show "(Inr (drop 1 ws), Inl w) \<in> measure (\<lambda>a. case a of Inl w \<Rightarrow> size w | Inr ws \<Rightarrow> size_list size ws)"
    if "w = JArr ws" for w ws
    using that rest [of ws] by simp
  show "(Inl (idx ws 1), Inl w) \<in> measure (\<lambda>a. case a of Inl w \<Rightarrow> size w | Inr ws \<Rightarrow> size_list size ws)"
    if "w = JArr ws" for w ws
    using that at [of ws 1] by simp
  then show "(Inl (idx ws 1), Inl w) \<in> measure (\<lambda>a. case a of Inl w \<Rightarrow> size w | Inr ws \<Rightarrow> size_list size ws)"
    if "w = JArr ws" for w ws
    using that by simp
  show "(Inl (idx ws 2), Inl w) \<in> measure (\<lambda>a. case a of Inl w \<Rightarrow> size w | Inr ws \<Rightarrow> size_list size ws)"
    if "w = JArr ws" for w ws
    using that at [of ws 2] by simp
  show "(Inl x, Inr (x # xs)) \<in> measure (\<lambda>a. case a of Inl w \<Rightarrow> size w | Inr ws \<Rightarrow> size_list size ws)"
    for x xs
    by simp
  show "(Inr xs, Inr (x # xs)) \<in> measure (\<lambda>a. case a of Inl w \<Rightarrow> size w | Inr ws \<Rightarrow> size_list size ws)"
    for x xs
    by simp
qed


declare parseArrayCondition.simps [simp del]

definition parseObjectCondition :: "jsval \<Rightarrow> js_exn + string" where
  "parseObjectCondition w =
     and_then (for_in w) (\<lambda>keys.
     and_then (map_exn (\<lambda>i. and_then (get_prop w i) (\<lambda>v.
                              and_then (SqlStringEscape v False JUndefined) (\<lambda>e.
                              Inr (''`'' @ i @ ''`='' @ e)))) keys) (\<lambda>list.
     Inr (join '' AND '' list)))"

text \<open>\<^verbatim>\<open>parseCondition\<close> returns text, or \<^verbatim>\<open>false\<close> for an input of no other shape.\<close>

definition parseCondition :: "jsval \<Rightarrow> js_exn + jsval" where
  "parseCondition w =
     (if typeof w = ''string'' then Inr w
      else if is_array w then and_then (parseArrayCondition w) (\<lambda>s. Inr (JStr s))
      else if truthy w \<and> typeof w = ''object'' then and_then (parseObjectCondition w) (\<lambda>s. Inr (JStr s))
      else Inr (JBool False))"

section \<open>The pooled executor\<close>

text \<open>
  What a call does is the sequence of its calls to the outside, and the exception that
  leaves it, if any. \<open>Query args\<close> is a call of \<^verbatim>\<open>conn.query\<close> with these arguments
  before the callback, \<open>Release\<close> a call of \<^verbatim>\<open>conn.release\<close>, and \<open>Callback args\<close> a
  call of the caller's callback.
\<close>

datatype event = Query "jsval list" | Release | Callback "jsval list"

type_synonym outcome = "event list \<times> js_exn option"

type_synonym callback = "jsval list \<Rightarrow> outcome"

definition emit :: "event \<Rightarrow> outcome" where
  "emit e = ([e], None)"

definition raise :: "js_exn \<Rightarrow> outcome" where
  "raise e = ([], Some e)"

definition seq :: "outcome \<Rightarrow> outcome \<Rightarrow> outcome" where
  "seq a b = (case snd a of Some e \<Rightarrow> a | None \<Rightarrow> (fst a @ fst b, snd b))"

definition run :: "js_exn + 'a \<Rightarrow> ('a \<Rightarrow> outcome) \<Rightarrow> outcome" where
  "run m f = (case m of Inl e \<Rightarrow> raise e | Inr x \<Rightarrow> f x)"

definition caller_callback :: callback where
  "caller_callback args = emit (Callback args)"

text \<open>
  The driver is outside the library. A connection's \<^verbatim>\<open>query\<close> either calls the callback
  it is given once with some arguments, or raises; \<^verbatim>\<open>getConnection\<close> calls its callback
  with an error and a connection, of which one is absent.
\<close>

datatype connection = Completes "jsval list" | Raises jsval

datatype acquisition = Acquisition jsval "connection option"

record mysqlpool =
  timezone :: jsval
  getConnection :: acquisition

fun conn_query :: "connection \<Rightarrow> jsval list \<Rightarrow> callback \<Rightarrow> outcome" where
  "conn_query (Completes result) args cb = seq (emit (Query args)) (cb result)"
| "conn_query (Raises e) args cb = seq (emit (Query args)) (raise (Thrown e))"

definition query :: "mysqlpool \<Rightarrow> jsval list \<Rightarrow> callback \<Rightarrow> outcome" where
  "query me args callback =
     (case getConnection me of Acquisition err conn \<Rightarrow>
        if truthy err then callback [err]
        else (case conn of
                None \<Rightarrow> raise (TypeError ''Cannot read property of undefined'')
              | Some c \<Rightarrow> conn_query c args (\<lambda>result. seq (emit Release) (callback result))))"

definition escape :: "mysqlpool \<Rightarrow> jsval \<Rightarrow> js_exn + string" where
  "escape me v = SqlStringEscape v False (timezone me)"

section \<open>The statement builders\<close>

text \<open>
  Each method builds the text of its statement and hands it to \<open>query\<close>; the text is a
  definition of its own here. The optional \<open>tail\<close> is \<open>None\<close> when the caller passes
  the callback in its place. The parameter \<^verbatim>\<open>fields\<close> of the source is \<open>cols\<close>, and
  the method \<^verbatim>\<open>insert\<close> is \<open>insert_js\<close>, since Isabelle has these names already.
\<close>

definition tail_text :: "jsval option \<Rightarrow> jsval" where
  "tail_text tail = (case tail of None \<Rightarrow> JStr [] | Some t \<Rightarrow> t)"

subsection \<open>insert\<close>

text \<open>
  The accumulator \<^verbatim>\<open>fileds\<close> is an object literal, kept as the list of its keys in
  the order of their creation: \<^verbatim>\<open>fileds[i]\<close> is truthy when \<open>i\<close> is one of them, and
  also when \<open>i\<close> is a name that the object inherits. \<open>collect_fields\<close> is the first
  loop over the rows, \<open>value_line\<close> the body of the second, \<open>line_text\<close> the text of
  one tuple.
\<close>

definition add_field :: "string list \<Rightarrow> string \<Rightarrow> string list" where
  "add_field fileds i =
     (if i \<in> set fileds \<or> i \<in> set object_prototype_names then fileds else fileds @ [i])"

fun collect_fields :: "string list \<Rightarrow> jsval list \<Rightarrow> js_exn + string list" where
  "collect_fields fileds [] = Inr fileds"
| "collect_fields fileds (item # items) =
     and_then (for_in item) (\<lambda>keys. collect_fields (foldl add_field fileds keys) items)"

definition value_line :: "string list \<Rightarrow> jsval \<Rightarrow> js_exn + jsval list" where
  "value_line fileds item =
     map_exn (\<lambda>f. and_then (get_prop item f) (\<lambda>v. Inr (if truthy v then v else JStr []))) fileds"

definition line_text :: "mysqlpool \<Rightarrow> jsval list \<Rightarrow> js_exn + string" where
  "line_text me line = and_then (map_exn (escape me) line) (\<lambda>vs. Inr (''('' @ join '','' vs @ '')''))"

definition insert_sql :: "mysqlpool \<Rightarrow> jsval \<Rightarrow> jsval list \<Rightarrow> js_exn + string" where
  "insert_sql me table data =
     and_then (collect_fields [] data) (\<lambda>created.
     and_then (map_exn (value_line (own_keys created)) data) (\<lambda>values.
     and_then (map_exn (line_text me) values) (\<lambda>lines.
     Inr (''INSERT INTO `'' @ to_string table @ ''`(''
          @ join '','' (map (\<lambda>f. ''`'' @ f @ ''`'') (own_keys created))
          @ '') VALUES'' @ [CHR 0x0A] @ join ('','' @ [CHR 0x0A]) lines))))"

definition insert_js :: "mysqlpool \<Rightarrow> jsval \<Rightarrow> jsval \<Rightarrow> callback \<Rightarrow> outcome" where
  "insert_js me table data0 callback =
     (let data = (case data0 of JArr rows \<Rightarrow> rows | _ \<Rightarrow> [data0]) in
      if \<not> (truthy (idx data 0) \<and> typeof (idx data 0) = ''object'')
      then callback [JError ''Bad data format.'']
      else run (insert_sql me table data) (\<lambda>sql. query me [JStr sql] callback))"

subsection \<open>update, delete, select\<close>

definition update_sql :: "mysqlpool \<Rightarrow> jsval \<Rightarrow> jsval \<Rightarrow> jsval \<Rightarrow> jsval \<Rightarrow> js_exn + string" where
  "update_sql me table where_text data tail =
     and_then (for_in data) (\<lambda>keys.
     and_then (map_exn (\<lambda>i. and_then (get_prop data i) (\<lambda>v.
                              and_then (escape me v) (\<lambda>e.
                              Inr (''`'' @ i @ ''`='' @ e)))) keys) (\<lambda>set_list.
     Inr (''UPDATE `'' @ to_string table @ ''` SET '' @ join '','' set_list
          @ '' WHERE '' @ to_string where_text @ '' '' @ to_string tail)))"

text \<open>The assignments of \<^verbatim>\<open>update\<close>, joined: \<^verbatim>\<open>set.join(',')\<close>.\<close>

definition set_text :: "mysqlpool \<Rightarrow> jsval \<Rightarrow> js_exn + string" where
  "set_text me data =
     and_then (for_in data) (\<lambda>keys.
     and_then (map_exn (\<lambda>i. and_then (get_prop data i) (\<lambda>v.
                              and_then (escape me v) (\<lambda>e.
                              Inr (''`'' @ i @ ''`='' @ e)))) keys) (\<lambda>set_list.
     Inr (join '','' set_list)))"

definition update :: "mysqlpool \<Rightarrow> jsval \<Rightarrow> jsval \<Rightarrow> jsval \<Rightarrow> jsval option \<Rightarrow> callback \<Rightarrow> outcome" where
  "update me table where_cond data tail callback =
     run (parseCondition where_cond) (\<lambda>where_text.
       if \<not> (truthy data \<and> typeof data = ''object'')
       then callback [JError ''Data must be an object.'']
       else run (update_sql me table where_text data (tail_text tail))
              (\<lambda>sql. query me [JStr sql] callback))"

definition delete_sql :: "jsval \<Rightarrow> jsval \<Rightarrow> jsval \<Rightarrow> string" where
  "delete_sql table where_text tail =
     ''DELETE FROM `'' @ to_string table @ ''` WHERE '' @ to_string where_text
     @ '' '' @ to_string tail"

definition delete :: "mysqlpool \<Rightarrow> jsval \<Rightarrow> jsval \<Rightarrow> jsval option \<Rightarrow> callback \<Rightarrow> outcome" where
  "delete me table where_cond tail callback =
     run (parseCondition where_cond) (\<lambda>where_text.
       query me [JStr (delete_sql table where_text (tail_text tail))] callback)"

definition fields_text :: "jsval \<Rightarrow> string" where
  "fields_text cols =
     (case cols of
        JArr items \<Rightarrow> join '', '' (map (\<lambda>item. ''`'' @ to_string item @ ''`'') items)
      | _ \<Rightarrow> to_string cols)"

definition select_sql :: "jsval \<Rightarrow> jsval \<Rightarrow> jsval \<Rightarrow> jsval \<Rightarrow> string" where
  "select_sql table cols where_text tail =
     ''SELECT '' @ fields_text cols @ '' FROM `'' @ to_string table @ ''` WHERE ''
     @ to_string where_text @ '' '' @ to_string tail"

definition select :: "mysqlpool \<Rightarrow> jsval \<Rightarrow> jsval \<Rightarrow> jsval \<Rightarrow> jsval option \<Rightarrow> callback \<Rightarrow> outcome" where
  "select me table cols where_cond tail callback =
     run (parseCondition where_cond) (\<lambda>where_text.
       query me [JStr (select_sql table cols where_text (tail_text tail))] callback)"

subsection \<open>selectOne\<close>

text \<open>
  \<^verbatim>\<open>toLowerCase\<close> on code units below 256: the letters A to Z, and the accented capitals
  from 0xC0 to 0xDE but for the multiplication sign 0xD7.
\<close>

definition lower_char :: "char \<Rightarrow> char" where
  "lower_char c =
     (let n = (of_char c :: nat) in
      if (65 \<le> n \<and> n \<le> 90) \<or> (192 \<le> n \<and> n \<le> 222 \<and> n \<noteq> 215) then char_of (n + 32) else c)"

definition to_lower :: "string \<Rightarrow> string" where
  "to_lower s = map lower_char s"

text \<open>\<^verbatim>\<open>s.indexOf(needle)\<close>: the first position of \<open>needle\<close> in \<open>s\<close>, or \<open>-1\<close>.\<close>

fun index_of :: "string \<Rightarrow> string \<Rightarrow> int" where
  "index_of [] needle = (if needle = [] then 0 else - 1)"
| "index_of (c # cs) needle =
     (if take (length needle) (c # cs) = needle then 0
      else (let i = index_of cs needle in if i = - 1 then - 1 else i + 1))"

definition limit_tail :: "jsval \<Rightarrow> js_exn + jsval" where
  "limit_tail tail =
     (case tail of
        JStr t \<Rightarrow> Inr (JStr (if index_of (to_lower t) ''limit '' = - 1 then t @ '' LIMIT 1'' else t))
      | _ \<Rightarrow> Inl (TypeError ''tail.toLowerCase is not a function''))"

definition first_row :: "callback \<Rightarrow> callback" where
  "first_row callback args =
     (let err = idx args 0; list = idx args 1 in
      if truthy err then callback [err]
      else if truthy list then run (get_prop list ''0'') (\<lambda>row. callback [JNull, row])
      else callback [JNull, list])"

definition selectOne :: "mysqlpool \<Rightarrow> jsval \<Rightarrow> jsval \<Rightarrow> jsval \<Rightarrow> jsval option \<Rightarrow> callback \<Rightarrow> outcome" where
  "selectOne me table cols where_cond tail callback =
     run (limit_tail (tail_text tail)) (\<lambda>tail'.
       select me table cols where_cond (Some tail') (first_row callback))"


section \<open>The documented behaviour, for comparison\<close>

text \<open>The escape sequences as the specification lists them.\<close>

definition documented_escapes :: "(char \<times> string) list" where
  "documented_escapes =
     [(CHR 0x00, [CHR 0x5C, CHR ''0'']),
      (CHR 0x0A, [CHR 0x5C, CHR ''n'']),
      (CHR 0x0D, [CHR 0x5C, CHR ''r'']),
      (CHR 0x08, [CHR 0x5C, CHR ''b'']),
      (CHR 0x09, [CHR 0x5C, CHR ''t'']),
      (CHR 0x1A, [CHR 0x5C, CHR ''Z'']),
      (CHR 0x5C, [CHR 0x5C, CHR 0x5C]),
      (CHR 0x27, [CHR 0x5C, CHR 0x27]),
      (CHR 0x22, [CHR 0x5C, CHR 0x22])]"

definition documented_escape :: "char \<Rightarrow> string" where
  "documented_escape c = (case map_of documented_escapes c of Some e \<Rightarrow> e | None \<Rightarrow> [c])"

text \<open>
  A trailing clause has a \<open>limit\<close> token, in whatever case, when somewhere in it the
  letters l, i, m, i, t, each small or capital, stand in a row before a space.
\<close>

definition limit_letters :: "string list" where
  "limit_letters = [''lL'', ''iI'', ''mM'', ''iI'', ''tT'', '' '']"

definition limit_token_at_start :: "string \<Rightarrow> bool" where
  "limit_token_at_start s = list_all2 (\<lambda>c letters. c \<in> set letters) (take 6 s) limit_letters"

fun contains_limit_token :: "string \<Rightarrow> bool" where
  "contains_limit_token [] = False"
| "contains_limit_token (c # cs) = (limit_token_at_start (c # cs) \<or> contains_limit_token cs)"

text \<open>
  The insert statement as the specification describes it: the columns are the keys of all
  rows, each at its first occurrence; a row gives, for each column, its value, or the
  empty text when it has no such key or the value is falsy.
\<close>

definition first_seen :: "'a list \<Rightarrow> 'a list" where
  "first_seen xs = rev (remdups (rev xs))"

definition documented_columns :: "(string \<times> jsval) list list \<Rightarrow> string list" where
  "documented_columns rows = first_seen (concat (map (map fst) rows))"

definition documented_cell :: "(string \<times> jsval) list \<Rightarrow> string \<Rightarrow> jsval" where
  "documented_cell row c =
     (case map_of row c of None \<Rightarrow> JStr [] | Some v \<Rightarrow> if truthy v then v else JStr [])"

definition documented_insert :: "mysqlpool \<Rightarrow> jsval \<Rightarrow> (string \<times> jsval) list list \<Rightarrow> js_exn + string" where
  "documented_insert me table rows =
     and_then (map_exn (\<lambda>row. and_then (map_exn (\<lambda>c. escape me (documented_cell row c))
                                            (documented_columns rows))
                                 (\<lambda>vs. Inr (''('' @ join '','' vs @ '')''))) rows)
       (\<lambda>tuples. Inr (''INSERT INTO `'' @ to_string table @ ''`(''
                      @ join '','' (map (\<lambda>c. ''`'' @ c @ ''`'') (documented_columns rows))
                      @ '') VALUES'' @ [CHR 0x0A] @ join ('','' @ [CHR 0x0A]) tuples))"

text \<open>
  A plain key is neither an array index nor a name that an object inherits; a plain row
  is a mapping with plain, distinct keys.
\<close>

definition plain_key :: "string \<Rightarrow> bool" where
  "plain_key k = (\<not> is_array_index k \<and> k \<notin> set object_prototype_names)"

definition plain_row :: "(string \<times> jsval) list \<Rightarrow> bool" where
  "plain_row ps = (distinct (map fst ps) \<and> list_all plain_key (map fst ps))"

text \<open>A pool that leases a connection whose \<^verbatim>\<open>query\<close> answers with \<open>result\<close>.\<close>

definition answering :: "jsval list \<Rightarrow> mysqlpool" where
  "answering result =
     \<lparr> timezone = JUndefined, getConnection = Acquisition JNull (Some (Completes result)) \<rparr>"

section \<open>Basic facts\<close>

lemma and_then_Inr [simp]: "and_then (Inr x) f = f x"
  by (simp add: and_then_def)

lemma and_then_Inl [simp]: "and_then (Inl e) f = Inl e"
  by (simp add: and_then_def)

lemma map_exn_total: "map_exn (\<lambda>x. Inr (g x)) xs = Inr (map g xs)"
  by (induction xs) simp_all

lemma parse_each_map_exn: "parse_each ws = map_exn parseArrayCondition ws"
  by (induction ws) simp_all

lemma parseArrayCondition_not_array:
  "\<not> is_array v \<Longrightarrow> parseArrayCondition v = SqlStringEscape v False JUndefined"
  by (subst parseArrayCondition.simps) (cases v; simp)

lemma own_keys_no_index:
  "list_all (\<lambda>k. \<not> is_array_index k) ks \<Longrightarrow> own_keys ks = ks"
proof -
  assume a: "list_all (\<lambda>k. \<not> is_array_index k) ks"
  then have "filter is_array_index ks = []"
    by (simp add: list_all_iff filter_empty_conv)
  moreover from a have "filter (\<lambda>k. \<not> is_array_index k) ks = ks"
    by (simp add: list_all_iff filter_id_conv)
  ultimately show ?thesis by (simp add: own_keys_def)
qed


lemma map_exn_cong:
  "(\<And>x. x \<in> set xs \<Longrightarrow> f x = g x) \<Longrightarrow> map_exn f xs = map_exn g xs"
  by (induction xs) simp_all

lemma map_exn_map: "map_exn f (map h xs) = map_exn (\<lambda>x. f (h x)) xs"
  by (induction xs) simp_all


lemma seq_emit [simp]: "seq (emit e) b = (e # fst b, snd b)"
  by (simp add: seq_def emit_def)

lemma run_Inr [simp]: "run (Inr x) f = f x"
  by (simp add: run_def)

lemma run_Inl [simp]: "run (Inl e) f = ([], Some e)"
  by (simp add: run_def raise_def)

lemma not_object_cases:
  "(truthy v \<and> typeof v = ''object'')
     = (case v of JDate _ \<Rightarrow> True | JBuffer _ \<Rightarrow> True | JArr _ \<Rightarrow> True
               | JObj _ \<Rightarrow> True | JError _ \<Rightarrow> True | _ \<Rightarrow> False)"
  by (cases v) simp_all

lemma index_of_lower: "- 1 \<le> index_of s needle"
  by (induction s) (simp_all add: Let_def)

lemma lower_char_eq:
  "(lower_char x = y) =
     (if (65 \<le> (of_char x :: nat) \<and> (of_char x :: nat) \<le> 90)
          \<or> (192 \<le> (of_char x :: nat) \<and> (of_char x :: nat) \<le> 222 \<and> (of_char x :: nat) \<noteq> 215)
      then (of_char x :: nat) + 32 = of_char y else (of_char x :: nat) = of_char y)"
proof -
  have "(char_of ((of_char x :: nat) + 32) = y) = ((of_char x :: nat) + 32 = of_char y)"
    if "(of_char x :: nat) \<le> 222"
  proof -
    have "(char_of ((of_char x :: nat) + 32) = y)
            = ((of_char (char_of ((of_char x :: nat) + 32) :: char) :: nat) = of_char y)"
      by (simp only: of_char_eq_iff)
    also have "\<dots> = ((of_char x :: nat) + 32 = of_char y)"
      using that by simp
    finally show ?thesis .
  qed
  then show ?thesis
    by (auto simp: lower_char_def Let_def)
qed

lemma lower_char_letter:
  "(lower_char x = CHR ''l'') = (x = CHR ''l'' \<or> x = CHR ''L'')"
  "(lower_char x = CHR ''i'') = (x = CHR ''i'' \<or> x = CHR ''I'')"
  "(lower_char x = CHR ''m'') = (x = CHR ''m'' \<or> x = CHR ''M'')"
  "(lower_char x = CHR ''t'') = (x = CHR ''t'' \<or> x = CHR ''T'')"
  "(lower_char x = CHR '' '') = (x = CHR '' '')"
proof -
  have c: "(x = y) = ((of_char x :: nat) = of_char y)" for y
    by simp
  show "(lower_char x = CHR ''l'') = (x = CHR ''l'' \<or> x = CHR ''L'')"
    unfolding lower_char_eq c [of "CHR ''l''"] c [of "CHR ''L''"] by simp arith
  show "(lower_char x = CHR ''i'') = (x = CHR ''i'' \<or> x = CHR ''I'')"
    unfolding lower_char_eq c [of "CHR ''i''"] c [of "CHR ''I''"] by simp arith
  show "(lower_char x = CHR ''m'') = (x = CHR ''m'' \<or> x = CHR ''M'')"
    unfolding lower_char_eq c [of "CHR ''m''"] c [of "CHR ''M''"] by simp arith
  show "(lower_char x = CHR ''t'') = (x = CHR ''t'' \<or> x = CHR ''T'')"
    unfolding lower_char_eq c [of "CHR ''t''"] c [of "CHR ''T''"] by simp arith
  show "(lower_char x = CHR '' '') = (x = CHR '' '')"
    unfolding lower_char_eq c [of "CHR '' ''"] by simp
qed

lemma starts_with_limit:
  "(take 6 (to_lower s) = ''limit '') = limit_token_at_start s"
proof -
  have "(take 6 (to_lower s) = ''limit '') = (map lower_char (take 6 s) = ''limit '')"
    by (simp add: to_lower_def take_map)
  also have "\<dots> = limit_token_at_start s"
    by (auto simp: limit_token_at_start_def limit_letters_def list_all2_Cons2 lower_char_letter)
  finally show ?thesis .
qed

lemma index_of_Cons_iff:
  "(index_of (x # xs) needle = - 1)
     = (take (length needle) (x # xs) \<noteq> needle \<and> index_of xs needle = - 1)"
  using index_of_lower [of xs needle] by (simp add: Let_def)

lemma index_of_limit_token:
  "(index_of (to_lower t) ''limit '' = - 1) = (\<not> contains_limit_token t)"
proof -
  define L where "L = ''limit ''"
  have len: "length L = 6"
    by (simp add: L_def)
  have start: "(take 6 (to_lower s) = L) = limit_token_at_start s" for s
    unfolding L_def by (rule starts_with_limit)
  have "(index_of (to_lower t) L = - 1) = (\<not> contains_limit_token t)"
  proof (induction t)
    case Nil
    then show ?case by (simp add: to_lower_def L_def)
  next
    case (Cons c cs)
    have "(index_of (to_lower (c # cs)) L = - 1)
            = (take 6 (to_lower (c # cs)) \<noteq> L \<and> index_of (to_lower cs) L = - 1)"
      using index_of_Cons_iff [of "lower_char c" "to_lower cs" L]
      by (simp only: len to_lower_def list.map)
    then show ?case
      by (simp only: start Cons contains_limit_token.simps de_Morgan_disj)
  qed
  then show ?thesis
    by (simp only: L_def)
qed


lemma parse_each_elements:
  "parse_each ws
     = map_exn (\<lambda>x. if is_array x then parseArrayCondition x
                      else SqlStringEscape x False JUndefined) ws"
proof -
  have "map_exn parseArrayCondition ws
          = map_exn (\<lambda>x. if is_array x then parseArrayCondition x
                           else SqlStringEscape x False JUndefined) ws"
    by (rule map_exn_cong) (simp add: parseArrayCondition_not_array)
  then show ?thesis
    by (simp add: parse_each_map_exn)
qed

lemma update_sql_set_text:
  "update_sql me table where_text data tail
     = and_then (set_text me data)
         (\<lambda>s. Inr (''UPDATE `'' @ to_string table @ ''` SET '' @ s
                    @ '' WHERE '' @ to_string where_text @ '' '' @ to_string tail))"
  by (simp add: update_sql_def set_text_def and_then_def split: sum.splits)

lemma run_and_then: "run (and_then m f) g = run m (\<lambda>x. run (f x) g)"
  by (simp add: run_def and_then_def split: sum.splits)

lemma update_compiled:
  assumes "parseCondition c = Inr ct" and "truthy data \<and> typeof data = ''object''"
  shows "update me table c data tail callback
           = run (set_text me data)
               (\<lambda>s. query me [JStr (''UPDATE `'' @ to_string table @ ''` SET '' @ s
                                     @ '' WHERE '' @ to_string ct @ '' ''
                                     @ to_string (tail_text tail))] callback)"
  using assms by (simp add: update_def update_sql_set_text run_and_then)

lemma select_compiled:
  assumes "parseCondition c = Inr ct"
  shows "select me table cols c tail callback
           = query me [JStr (''SELECT '' @ fields_text cols @ '' FROM `'' @ to_string table
                             @ ''` WHERE '' @ to_string ct @ '' ''
                             @ to_string (tail_text tail))] callback"
  using assms by (simp add: select_def select_sql_def)

lemma delete_compiled:
  assumes "parseCondition c = Inr ct"
  shows "delete me table c tail callback
           = query me [JStr (''DELETE FROM `'' @ to_string table
                             @ ''` WHERE '' @ to_string ct @ '' ''
                             @ to_string (tail_text tail))] callback"
  using assms by (simp add: delete_def delete_sql_def)

lemma query_completes:
  "getConnection me = Acquisition err (Some (Completes result)) \<Longrightarrow> \<not> truthy err \<Longrightarrow>
   query me args cb = (Query args # Release # fst (cb result), snd (cb result))"
  by (simp add: query_def seq_def emit_def split: option.splits)

section \<open>Escaping text\<close>

lemma escape_char_documented: "escape_char = documented_escape"
  by (rule ext) (simp add: escape_char_def documented_escape_def documented_escapes_def)

lemma closes_early_single:
  "c \<noteq> CHR 0x5C \<Longrightarrow> c \<noteq> CHR 0x27 \<Longrightarrow> closes_early (c # rest) = closes_early rest"
  by (cases rest) simp_all

lemma closes_early_escape_char: "closes_early (escape_char c @ rest) = closes_early rest"
  by (simp add: escape_char_def closes_early_single)

lemma closes_early_replace_special: "closes_early (replace_special s @ rest) = closes_early rest"
  by (induction s) (simp_all add: replace_special_def closes_early_escape_char)

text \<open>
  C3. For every text \<open>s\<close>, the escaper returns \<open>s\<close> with each of NUL, newline, carriage
  return, backspace, tab, SUB, backslash, single quote and double quote replaced by its
  documented two-character escape, between single quotes; and no quote inside the
  delimiters ends the literal early.
\<close>

theorem escape_text:
  "SqlStringEscape (JStr s) stringifyObjects timeZone
     = Inr ([CHR 0x27] @ concat (map documented_escape s) @ [CHR 0x27])
   \<and> \<not> closes_early (concat (map documented_escape s))"
proof -
  have "\<not> closes_early (replace_special s @ [])"
    by (simp only: closes_early_replace_special closes_early.simps) simp
  moreover have "replace_special s = concat (map documented_escape s)"
    by (simp add: replace_special_def escape_char_documented)
  ultimately show ?thesis by (simp add: quote_def)
qed

section \<open>Escaping dates, buffers, sequences and mappings\<close>

text \<open>
  C4. The specification has a Date, a byte sequence, an ordered sequence and a mapping
  rendered as a literal. In the code each of them reaches the unbound identifier
  \<^verbatim>\<open>SqlString\<close>, and the escaper raises a ReferenceError instead of returning.
\<close>

theorem escape_unbound_SqlString:
  "escape me (JDate d) = Inl (ReferenceError ''SqlString'')
   \<and> escape me (JBuffer bs) = Inl (ReferenceError ''SqlString'')
   \<and> escape me (JArr xs) = Inl (ReferenceError ''SqlString'')
   \<and> escape me (JObj ps) = Inl (ReferenceError ''SqlString'')"
  by (simp add: escape_def)

section \<open>Prefix expressions\<close>




text \<open>
  C6, as the code has it. A prefix expression that starts with \<open>$and\<close> or \<open>$or\<close>
  handles each remaining element, compiling it as a prefix expression when it is a
  sequence and escaping it as a value when it is not, and joins the results with
  \<open>AND\<close> or \<open>OR\<close> inside one parenthesised group; one that starts with \<open>$not\<close>
  handles its second element in the same way, puts \<open>NOT\<close> before it and parenthesises
  the result. An element that raises makes the whole compilation raise. On a sequence,
  \<open>parseArrayCondition\<close> is the compiler itself (the last conjunct).
\<close>

theorem compile_logical_operators:
  "parseCondition (JArr (JStr ''$and'' # ws))
     = and_then (map_exn (\<lambda>x. if is_array x then parseArrayCondition x
                               else SqlStringEscape x False JUndefined) ws)
         (\<lambda>rs. Inr (JStr ('' ('' @ join '' AND '' rs @ '') '')))
   \<and> parseCondition (JArr (JStr ''$or'' # ws))
     = and_then (map_exn (\<lambda>x. if is_array x then parseArrayCondition x
                               else SqlStringEscape x False JUndefined) ws)
         (\<lambda>rs. Inr (JStr ('' ('' @ join '' OR '' rs @ '') '')))
   \<and> parseCondition (JArr [JStr ''$and'', a, b])
     = and_then (if is_array a then parseArrayCondition a else SqlStringEscape a False JUndefined)
         (\<lambda>x. and_then (if is_array b then parseArrayCondition b
                          else SqlStringEscape b False JUndefined)
         (\<lambda>y. Inr (JStr ('' ('' @ x @ '' AND '' @ y @ '') ''))))
   \<and> parseCondition (JArr [JStr ''$or'', a, b])
     = and_then (if is_array a then parseArrayCondition a else SqlStringEscape a False JUndefined)
         (\<lambda>x. and_then (if is_array b then parseArrayCondition b
                          else SqlStringEscape b False JUndefined)
         (\<lambda>y. Inr (JStr ('' ('' @ x @ '' OR '' @ y @ '') ''))))
   \<and> parseCondition (JArr (JStr ''$not'' # w # rest))
     = and_then (if is_array w then parseArrayCondition w else SqlStringEscape w False JUndefined)
         (\<lambda>r. Inr (JStr ('' (NOT '' @ r @ '') '')))
   \<and> parseCondition (JArr nested) = and_then (parseArrayCondition (JArr nested)) (\<lambda>r. Inr (JStr r))"
proof -
  let ?E = "\<lambda>x. if is_array x then parseArrayCondition x else SqlStringEscape x False JUndefined"
  have e: "parseArrayCondition x = ?E x" for x
    by (simp add: parseArrayCondition_not_array)
  have a: "parseArrayCondition (JArr (JStr ''$and'' # ws))
     = and_then (map_exn ?E ws) (\<lambda>rs. Inr ('' ('' @ join '' AND '' rs @ '') ''))" for ws
    by (subst parseArrayCondition.simps) (simp add: idx_def wrap_def parse_each_elements)
  have b: "parseArrayCondition (JArr (JStr ''$or'' # ws))
     = and_then (map_exn ?E ws) (\<lambda>rs. Inr ('' ('' @ join '' OR '' rs @ '') ''))" for ws
    by (subst parseArrayCondition.simps) (simp add: idx_def wrap_def parse_each_elements)
  have c: "parseArrayCondition (JArr (JStr ''$not'' # w # rest))
     = and_then (?E w) (\<lambda>r. Inr ('' (NOT '' @ r @ '') ''))"
    by (subst parseArrayCondition.simps) (simp add: idx_def wrap_def e [symmetric])
  have two: "and_then (map_exn ?E [a, b]) (\<lambda>rs. Inr ('' ('' @ join sep rs @ '') ''))
     = and_then (?E a) (\<lambda>x. and_then (?E b) (\<lambda>y. Inr ('' ('' @ x @ sep @ y @ '') '')))" for sep
    by (simp add: and_then_def split: sum.splits)
  have a2: "parseArrayCondition (JArr [JStr ''$and'', a, b])
     = and_then (?E a) (\<lambda>x. and_then (?E b) (\<lambda>y. Inr ('' ('' @ x @ '' AND '' @ y @ '') '')))"
    unfolding a [of "[a, b]"] by (rule two)
  have b2: "parseArrayCondition (JArr [JStr ''$or'', a, b])
     = and_then (?E a) (\<lambda>x. and_then (?E b) (\<lambda>y. Inr ('' ('' @ x @ '' OR '' @ y @ '') '')))"
    unfolding b [of "[a, b]"] by (rule two)
  have lift: "parseCondition (JArr v) = and_then m (\<lambda>r. Inr (JStr (f r)))"
    if "parseArrayCondition (JArr v) = and_then m (\<lambda>r. Inr (f r))" for v m f
    using that by (simp add: parseCondition_def and_then_def split: sum.splits)
  have lift2: "parseCondition (JArr v)
                 = and_then m (\<lambda>x. and_then n (\<lambda>y. Inr (JStr (f x y))))"
    if "parseArrayCondition (JArr v) = and_then m (\<lambda>x. and_then n (\<lambda>y. Inr (f x y)))"
    for v m n f
    using that by (simp add: parseCondition_def and_then_def split: sum.splits)
  have d: "parseCondition (JArr nested)
             = and_then (parseArrayCondition (JArr nested)) (\<lambda>r. Inr (JStr r))"
    by (simp add: parseCondition_def)
  show ?thesis
    by (intro conjI) (rule lift [OF a], rule lift [OF b], rule lift2 [OF a2], rule lift2 [OF b2],
                      rule lift [OF c], rule d)
qed

theorem compile_logical_operators_witness:
  "parseCondition (JArr [JStr ''$and'', JArr [JStr ''a'', JNum 1],
                         JArr [JStr ''b'', JStr ''>'', JNum 2]])
     = Inr (JStr '' ( (`a`=1)  AND  (`b` > 2) ) '')
   \<and> parseCondition (JArr [JStr ''$or'', JArr [JStr ''a'', JNum 1], JStr ''x''])
     = Inr (JStr ('' ( (`a`=1)  OR '' @ [CHR 0x27] @ ''x'' @ [CHR 0x27] @ '') ''))
   \<and> parseCondition (JArr [JStr ''$not'', JArr [JStr ''a'', JNum 1]])
     = Inr (JStr '' (NOT  (`a`=1) ) '')"
proof -
  have x: "parseArrayCondition (JArr [JStr ''a'', JNum 1]) = Inr '' (`a`=1) ''"
    by code_simp
  have y: "parseArrayCondition (JArr [JStr ''b'', JStr ''>'', JNum 2]) = Inr '' (`b` > 2) ''"
    by code_simp
  show ?thesis
    using compile_logical_operators
            [of "[]" "JArr [JStr ''a'', JNum 1]" "JArr [JStr ''b'', JStr ''>'', JNum 2]"
                "JArr [JStr ''a'', JNum 1]" "[]" "[]"]
          compile_logical_operators
            [of "[]" "JArr [JStr ''a'', JNum 1]" "JStr ''x''" JNull "[]" "[]"]
    by (simp add: x y quote_def replace_special_def escape_char_def)
qed

text \<open>
  The claim as the specification states it fails on an element that is not a sequence:
  the compiler returns raw text as it is and compiles a mapping to equalities, but inside
  \<open>$and\<close> and \<open>$or\<close> the text becomes a quoted literal and the mapping reaches the
  escaper, which raises.
\<close>

theorem compile_logical_operators_counterexample:
  "parseCondition (JArr [JStr ''$and'', JStr ''a=1'', JStr ''b=2''])
     = Inr (JStr ('' ('' @ [CHR 0x27] @ ''a=1'' @ [CHR 0x27] @ '' AND ''
                  @ [CHR 0x27] @ ''b=2'' @ [CHR 0x27] @ '') ''))
   \<and> parseCondition (JStr ''a=1'') = Inr (JStr ''a=1'')
   \<and> parseCondition (JArr [JStr ''$or'', JObj [(''a'', JNum 1)], JObj [(''b'', JNum 2)]])
     = Inl (ReferenceError ''SqlString'')
   \<and> parseCondition (JObj [(''a'', JNum 1)]) = Inr (JStr ''`a`=1'')"
  by code_simp

section \<open>Equality mappings\<close>




section \<open>Acquire, query, release\<close>

text \<open>
  C1, as the code has it. When the acquisition fails, the caller's callback is called
  once with the acquisition error, and nothing else happens. When it succeeds and the
  driver answers the query, with a result or with an error, the connection is released
  once and then the caller's callback is called once with the driver's answer.
\<close>

theorem query_release_then_callback:
  assumes "getConnection me = Acquisition err conn"
  shows "(truthy err \<longrightarrow> query me args caller_callback = ([Callback [err]], None))
         \<and> (\<not> truthy err \<and> conn = Some (Completes result) \<longrightarrow>
              query me args caller_callback = ([Query args, Release, Callback result], None))"
  using assms by (simp add: query_def caller_callback_def seq_def emit_def)

theorem query_release_then_callback_witness:
  "getConnection \<lparr> timezone = JUndefined, getConnection = Acquisition JNull (Some (Completes [JError ''syntax''])) \<rparr>
     = Acquisition JNull (Some (Completes [JError ''syntax'']))
   \<and> \<not> truthy JNull
   \<and> query \<lparr> timezone = JUndefined, getConnection = Acquisition JNull (Some (Completes [JError ''syntax''])) \<rparr>
        [JStr ''SELECT 1''] caller_callback
       = ([Query [JStr ''SELECT 1''], Release, Callback [JError ''syntax'']], None)
   \<and> getConnection \<lparr> timezone = JUndefined, getConnection = Acquisition (JError ''busy'') None \<rparr>
     = Acquisition (JError ''busy'') None
   \<and> truthy (JError ''busy'')
   \<and> query \<lparr> timezone = JUndefined, getConnection = Acquisition (JError ''busy'') None \<rparr>
        [JStr ''SELECT 1''] caller_callback
       = ([Callback [JError ''busy'']], None)"
  using query_release_then_callback
          [of "\<lparr> timezone = JUndefined, getConnection = Acquisition JNull (Some (Completes [JError ''syntax''])) \<rparr>"
              JNull "Some (Completes [JError ''syntax''])" "[JStr ''SELECT 1'']" "[JError ''syntax'']"]
        query_release_then_callback
          [of "\<lparr> timezone = JUndefined, getConnection = Acquisition (JError ''busy'') None \<rparr>"
              "JError ''busy''" None "[JStr ''SELECT 1'']"]
  by simp

text \<open>
  The claim as the specification states it fails when the driver's \<^verbatim>\<open>query\<close> raises:
  the exception leaves the call, and neither the release nor the callback happens.
\<close>

theorem query_raises_counterexample:
  "query \<lparr> timezone = JUndefined, getConnection = Acquisition JNull (Some (Raises (JError ''lost''))) \<rparr>
     [JStr ''SELECT 1''] caller_callback
   = ([Query [JStr ''SELECT 1'']], Some (Thrown (JError ''lost'')))"
  by (simp add: query_def raise_def)


section \<open>The empty condition\<close>

text \<open>
  C2, as the code has it. For an absent condition (\<^verbatim>\<open>undefined\<close> or \<^verbatim>\<open>null\<close>) the
  compiler returns the sentinel \<^verbatim>\<open>false\<close>; for the empty sequence it returns the text
  \<open>" (false) "\<close>. Each of \<open>select\<close>, \<open>delete\<close> and \<open>update\<close> writes \<open>WHERE\<close> and then
  whatever the condition compiled to, the sentinel as the word \<open>false\<close>: for an absent
  condition the clause is \<open>WHERE false\<close>, for the empty sequence \<open>WHERE  (false) \<close>.
\<close>

theorem empty_condition:
  assumes "w = JUndefined \<or> w = JNull"
    and "parseCondition c = Inr ct"
    and "truthy data \<and> typeof data = ''object''"
  shows "parseCondition w = Inr (JBool False)
   \<and> parseCondition (JArr []) = Inr (JStr '' (false) '')
   \<and> select me table cols c tail callback
       = query me [JStr (''SELECT '' @ fields_text cols @ '' FROM `'' @ to_string table
                         @ ''` WHERE '' @ to_string ct @ '' '' @ to_string (tail_text tail))] callback
   \<and> delete me table c tail callback
       = query me [JStr (''DELETE FROM `'' @ to_string table
                         @ ''` WHERE '' @ to_string ct @ '' '' @ to_string (tail_text tail))] callback
   \<and> update me table c data tail callback
       = run (set_text me data)
           (\<lambda>s. query me [JStr (''UPDATE `'' @ to_string table @ ''` SET '' @ s
                 @ '' WHERE '' @ to_string ct @ '' '' @ to_string (tail_text tail))] callback)
   \<and> select me table cols w tail callback
       = query me [JStr (''SELECT '' @ fields_text cols @ '' FROM `'' @ to_string table
                         @ ''` WHERE false '' @ to_string (tail_text tail))] callback
   \<and> delete me table w tail callback
       = query me [JStr (''DELETE FROM `'' @ to_string table
                         @ ''` WHERE false '' @ to_string (tail_text tail))] callback
   \<and> update me table w data tail callback
       = run (set_text me data)
           (\<lambda>s. query me [JStr (''UPDATE `'' @ to_string table @ ''` SET '' @ s
                 @ '' WHERE false '' @ to_string (tail_text tail))] callback)
   \<and> select me table cols (JArr []) tail callback
       = query me [JStr (''SELECT '' @ fields_text cols @ '' FROM `'' @ to_string table
                         @ ''` WHERE  (false)  '' @ to_string (tail_text tail))] callback
   \<and> delete me table (JArr []) tail callback
       = query me [JStr (''DELETE FROM `'' @ to_string table
                         @ ''` WHERE  (false)  '' @ to_string (tail_text tail))] callback
   \<and> update me table (JArr []) data tail callback
       = run (set_text me data)
           (\<lambda>s. query me [JStr (''UPDATE `'' @ to_string table @ ''` SET '' @ s
                 @ '' WHERE  (false)  '' @ to_string (tail_text tail))] callback)"
proof -
  have e: "parseCondition (JArr []) = Inr (JStr '' (false) '')"
    by (simp add: parseCondition_def parseArrayCondition.simps idx_def wrap_def)
  have s: "parseCondition w = Inr (JBool False)"
    using assms(1) by (auto simp: parseCondition_def)
  show ?thesis
    using select_compiled [OF assms(2), of me table cols tail callback]
      delete_compiled [OF assms(2), of me table tail callback]
      update_compiled [OF assms(2,3), of me table tail callback]
      select_compiled [OF s, of me table cols tail callback]
      delete_compiled [OF s, of me table tail callback]
      update_compiled [OF s assms(3), of me table tail callback]
      select_compiled [OF e, of me table cols tail callback]
      delete_compiled [OF e, of me table tail callback]
      update_compiled [OF e assms(3), of me table tail callback]
    by (simp add: e s)
qed

theorem empty_condition_witness:
  "(JNull = JUndefined \<or> JNull = JNull)
   \<and> parseCondition (JObj [(''id'', JNum 7)]) = Inr (JStr ''`id`=7'')
   \<and> truthy (JObj [(''a'', JNum 1)]) \<and> typeof (JObj [(''a'', JNum 1)]) = ''object''
   \<and> parseCondition JNull = Inr (JBool False)
   \<and> update (answering [JNull]) (JStr ''t'') JNull (JObj [(''a'', JNum 1)]) None caller_callback
       = ([Query [JStr ''UPDATE `t` SET `a`=1 WHERE false ''], Release, Callback [JNull]], None)
   \<and> update (answering [JNull]) (JStr ''t'') (JArr []) (JObj [(''a'', JNum 1)]) None caller_callback
       = ([Query [JStr ''UPDATE `t` SET `a`=1 WHERE  (false)  ''], Release, Callback [JNull]], None)
   \<and> update (answering [JNull]) (JStr ''t'') (JObj [(''id'', JNum 7)]) (JObj [(''a'', JNum 1)])
        (Some (JStr ''LIMIT 1'')) caller_callback
       = ([Query [JStr ''UPDATE `t` SET `a`=1 WHERE `id`=7 LIMIT 1''], Release, Callback [JNull]], None)
   \<and> delete (answering [JNull]) (JStr ''t'') JNull None caller_callback
       = ([Query [JStr ''DELETE FROM `t` WHERE false ''], Release, Callback [JNull]], None)
   \<and> select (answering [JNull]) (JStr ''t'') (JStr ''*'') (JArr []) None caller_callback
       = ([Query [JStr ''SELECT * FROM `t` WHERE  (false)  ''], Release, Callback [JNull]], None)"
proof -
  let ?me = "answering [JNull]"
  let ?data = "JObj [(''a'', JNum 1)]"
  have w: "JNull = JUndefined \<or> JNull = JNull"
    by simp
  have c: "parseCondition (JObj [(''id'', JNum 7)]) = Inr (JStr ''`id`=7'')"
    by code_simp
  have d: "truthy ?data \<and> typeof ?data = ''object''"
    by simp
  have st: "set_text ?me ?data = Inr ''`a`=1''"
    by code_simp
  have q: "query ?me [JStr sql] caller_callback = ([Query [JStr sql], Release, Callback [JNull]], None)"
    for sql
    by (simp add: query_completes answering_def caller_callback_def emit_def)
  show ?thesis
    using empty_condition [OF w c d, of ?me "JStr ''t''" "JStr ''*''" None caller_callback]
      empty_condition [OF w c d, of ?me "JStr ''t''" "JStr ''*''" "Some (JStr ''LIMIT 1'')" caller_callback]
    by (simp add: st q tail_text_def fields_text_def c)
qed

text \<open>
  An empty mapping and an empty text compile to the empty text, and the clause is then
  a \<open>WHERE\<close> with nothing after it.
\<close>

lemma empty_mapping_condition_example:
  "select (answering [JNull]) (JStr ''t'') (JStr ''*'') (JObj []) None caller_callback
     = ([Query [JStr ''SELECT * FROM `t` WHERE  ''], Release, Callback [JNull]], None)
   \<and> select (answering [JNull]) (JStr ''t'') (JStr ''*'') (JStr []) None caller_callback
     = ([Query [JStr ''SELECT * FROM `t` WHERE  ''], Release, Callback [JNull]], None)"
  by code_simp

text \<open>
  The claim as the specification states it fails: the empty sequence compiles to text,
  not to the sentinel, and a builder given the sentinel writes \<open>WHERE false\<close>.
\<close>

theorem empty_condition_counterexample:
  "parseCondition (JArr []) = Inr (JStr '' (false) '')
   \<and> select (answering [JNull, JArr []]) (JStr ''t'') (JStr ''*'') JUndefined None caller_callback
       = ([Query [JStr ''SELECT * FROM `t` WHERE false ''], Release, Callback [JNull, JArr []]], None)"
  by code_simp

section \<open>Data-format errors\<close>

text \<open>
  C8, as the code has it. \<open>insert\<close> called with an empty batch, or with a first element
  that is falsy or not of type object (\<^verbatim>\<open>undefined\<close>, \<^verbatim>\<open>null\<close>, a boolean, a number,
  text), calls the caller's callback once with the data-format error and calls no query;
  so does \<open>update\<close> called with such data, when its condition compiles. The last
  conjunct says which values pass the check: every Date, Buffer, array, mapping (the empty
  one too) and Error object.
\<close>

theorem data_format_errors:
  "(\<not> (truthy (idx rows 0) \<and> typeof (idx rows 0) = ''object'') \<longrightarrow>
      insert_js me table (JArr rows) caller_callback = ([Callback [JError ''Bad data format.'']], None))
   \<and> (\<not> is_array d \<and> \<not> (truthy d \<and> typeof d = ''object'') \<longrightarrow>
      insert_js me table d caller_callback = ([Callback [JError ''Bad data format.'']], None))
   \<and> (parseCondition where_cond = Inr where_text \<and> \<not> (truthy data \<and> typeof data = ''object'') \<longrightarrow>
      update me table where_cond data tail caller_callback
        = ([Callback [JError ''Data must be an object.'']], None))
   \<and> (truthy v \<and> typeof v = ''object'')
       = (case v of JDate _ \<Rightarrow> True | JBuffer _ \<Rightarrow> True | JArr _ \<Rightarrow> True
                 | JObj _ \<Rightarrow> True | JError _ \<Rightarrow> True | _ \<Rightarrow> False)"
proof -
  have a: "insert_js me table (JArr rows) caller_callback = ([Callback [JError ''Bad data format.'']], None)"
    if "\<not> (truthy (idx rows 0) \<and> typeof (idx rows 0) = ''object'')"
    using that by (simp add: insert_js_def caller_callback_def emit_def)
  have b: "insert_js me table d caller_callback = ([Callback [JError ''Bad data format.'']], None)"
    if "\<not> is_array d" and "\<not> (truthy d \<and> typeof d = ''object'')"
    using that by (cases d) (simp_all add: insert_js_def caller_callback_def emit_def idx_def)
  have c: "update me table where_cond data tail caller_callback
        = ([Callback [JError ''Data must be an object.'']], None)"
    if "parseCondition where_cond = Inr where_text" and "\<not> (truthy data \<and> typeof data = ''object'')"
    using that by (simp add: update_def caller_callback_def emit_def)
  from a b c not_object_cases [of v] show ?thesis by blast
qed

theorem data_format_errors_witness:
  "\<not> (truthy (idx [] 0) \<and> typeof (idx [] 0) = ''object'')
   \<and> insert_js (answering []) (JStr ''t'') (JArr []) caller_callback
       = ([Callback [JError ''Bad data format.'']], None)
   \<and> \<not> is_array (JNum 5) \<and> \<not> (truthy (JNum 5) \<and> typeof (JNum 5) = ''object'')
   \<and> insert_js (answering []) (JStr ''t'') (JNum 5) caller_callback
       = ([Callback [JError ''Bad data format.'']], None)
   \<and> parseCondition (JStr ''id=1'') = Inr (JStr ''id=1'')
   \<and> \<not> (truthy JNull \<and> typeof JNull = ''object'')
   \<and> update (answering []) (JStr ''t'') (JStr ''id=1'') JNull None caller_callback
       = ([Callback [JError ''Data must be an object.'']], None)"
  using data_format_errors [of "[]" "answering []" "JStr ''t''" "JNum 5" "JStr ''id=1''" "JStr ''id=1''" JNull None]
  by (simp add: idx_def parseCondition_def)

text \<open>
  The claim as the specification states it fails: the empty mapping as data of
  \<open>update\<close>, and an array as first row of \<open>insert\<close>, pass the check and a statement
  goes to the database.
\<close>

theorem data_format_errors_counterexample:
  "update \<lparr> timezone = JUndefined, getConnection = Acquisition JNull (Some (Completes [JError ''syntax''])) \<rparr>
      (JStr ''t'') (JStr ''id=1'') (JObj []) None caller_callback
     = ([Query [JStr ''UPDATE `t` SET  WHERE id=1 ''], Release, Callback [JError ''syntax'']], None)
   \<and> insert_js \<lparr> timezone = JUndefined, getConnection = Acquisition JNull (Some (Completes [JNull])) \<rparr>
      (JStr ''t'') (JArr [JArr [JNum 1, JNum 2]]) caller_callback
     = ([Query [JStr (''INSERT INTO `t`(`0`,`1`) VALUES'' @ [CHR 0x0A] @ ''(1,2)'')], Release, Callback [JNull]], None)"
  by code_simp

section \<open>selectOne\<close>

text \<open>
  C10. When the trailing clause has no \<open>limit\<close> token in it, in whatever case,
  \<open>selectOne\<close> appends \<open>LIMIT 1\<close>; otherwise it leaves the clause as it is. When the query succeeds,
  the caller's callback receives the first row of the result, or \<^verbatim>\<open>undefined\<close> when the
  result is empty.
\<close>

theorem selectOne_limit_first_row:
  assumes "getConnection me = Acquisition err (Some (Completes [JNull, JArr rows]))"
    and "\<not> truthy err"
    and "parseCondition where_cond = Inr where_text"
    and "tail = None \<and> t = [] \<or> tail = Some (JStr t)"
  shows "selectOne me table cols where_cond tail caller_callback
           = ([Query [JStr (select_sql table cols where_text
                 (JStr (if contains_limit_token t then t else t @ '' LIMIT 1'')))],
               Release,
               Callback [JNull, (case rows of [] \<Rightarrow> JUndefined | row # _ \<Rightarrow> row)]], None)"
proof -
  have l: "limit_tail (tail_text tail)
             = Inr (JStr (if contains_limit_token t then t else t @ '' LIMIT 1''))"
    using assms(4) index_of_limit_token [of t]
    by (auto simp: limit_tail_def tail_text_def)
  have f: "first_row caller_callback [JNull, JArr rows]
             = ([Callback [JNull, (case rows of [] \<Rightarrow> JUndefined | row # _ \<Rightarrow> row)]], None)"
    by (cases rows)
       (simp_all add: first_row_def idx_def Let_def caller_callback_def emit_def element_at_def
                      is_array_index_def digits_value_def dec.simps digit_char_def)
  show ?thesis
    unfolding selectOne_def l
    using assms(1,2,3) by (simp add: select_def tail_text_def query_completes f)
qed

theorem selectOne_limit_first_row_witness:
  "getConnection (answering [JNull, JArr [JObj [(''id'', JNum 7)], JObj [(''id'', JNum 8)]]])
     = Acquisition JNull (Some (Completes [JNull, JArr [JObj [(''id'', JNum 7)], JObj [(''id'', JNum 8)]]]))
   \<and> \<not> truthy JNull
   \<and> parseCondition (JStr ''id>1'') = Inr (JStr ''id>1'')
   \<and> \<not> contains_limit_token []
   \<and> selectOne (answering [JNull, JArr [JObj [(''id'', JNum 7)], JObj [(''id'', JNum 8)]]])
        (JStr ''t'') (JStr ''*'') (JStr ''id>1'') None caller_callback
       = ([Query [JStr ''SELECT * FROM `t` WHERE id>1  LIMIT 1''], Release,
           Callback [JNull, JObj [(''id'', JNum 7)]]], None)
   \<and> contains_limit_token ''ORDER BY id LIMIT 5''
   \<and> selectOne (answering [JNull, JArr [JObj [(''id'', JNum 7)], JObj [(''id'', JNum 8)]]])
        (JStr ''t'') (JStr ''*'') (JStr ''id>1'') (Some (JStr ''ORDER BY id LIMIT 5'')) caller_callback
       = ([Query [JStr ''SELECT * FROM `t` WHERE id>1 ORDER BY id LIMIT 5''], Release,
           Callback [JNull, JObj [(''id'', JNum 7)]]], None)
   \<and> contains_limit_token ''order by id Limit 5''
   \<and> selectOne (answering [JNull, JArr []])
        (JStr ''t'') (JStr ''*'') (JStr ''id>1'') (Some (JStr ''order by id Limit 5'')) caller_callback
       = ([Query [JStr ''SELECT * FROM `t` WHERE id>1 order by id Limit 5''], Release,
           Callback [JNull, JUndefined]], None)"
proof -
  let ?rows = "[JObj [(''id'', JNum 7)], JObj [(''id'', JNum 8)]]"
  have g: "getConnection (answering [JNull, JArr rs]) = Acquisition JNull (Some (Completes [JNull, JArr rs]))" for rs
    by (simp add: answering_def)
  have n: "\<not> truthy JNull"
    by simp
  have p: "parseCondition (JStr ''id>1'') = Inr (JStr ''id>1'')"
    by (simp add: parseCondition_def)
  have t0: "\<not> contains_limit_token []"
    by simp
  have t1: "contains_limit_token ''ORDER BY id LIMIT 5''"
    by code_simp
  have t2: "contains_limit_token ''order by id Limit 5''"
    by code_simp
  have a: "selectOne (answering [JNull, JArr ?rows])
        (JStr ''t'') (JStr ''*'') (JStr ''id>1'') None caller_callback
       = ([Query [JStr ''SELECT * FROM `t` WHERE id>1  LIMIT 1''], Release,
           Callback [JNull, JObj [(''id'', JNum 7)]]], None)"
    using selectOne_limit_first_row [OF g n p, of None "[]" ?rows "JStr ''t''" "JStr ''*''"] t0
    by (simp add: select_sql_def fields_text_def)
  have b: "selectOne (answering [JNull, JArr ?rows])
        (JStr ''t'') (JStr ''*'') (JStr ''id>1'') (Some (JStr ''ORDER BY id LIMIT 5'')) caller_callback
       = ([Query [JStr ''SELECT * FROM `t` WHERE id>1 ORDER BY id LIMIT 5''], Release,
           Callback [JNull, JObj [(''id'', JNum 7)]]], None)"
    using selectOne_limit_first_row [OF g n p, of "Some (JStr ''ORDER BY id LIMIT 5'')"
            "''ORDER BY id LIMIT 5''" ?rows "JStr ''t''" "JStr ''*''"] t1
    by (simp add: select_sql_def fields_text_def)
  have c: "selectOne (answering [JNull, JArr []])
        (JStr ''t'') (JStr ''*'') (JStr ''id>1'') (Some (JStr ''order by id Limit 5'')) caller_callback
       = ([Query [JStr ''SELECT * FROM `t` WHERE id>1 order by id Limit 5''], Release,
           Callback [JNull, JUndefined]], None)"
    using selectOne_limit_first_row [OF g n p, of "Some (JStr ''order by id Limit 5'')"
            "''order by id Limit 5''" "[]" "JStr ''t''" "JStr ''*''"] t2
    by (simp add: select_sql_def fields_text_def)
  from g [of ?rows] n p t0 a t1 b t2 c show ?thesis
    by blast
qed

lemma selectOne_tail_examples:
  "limit_tail (JStr '''') = Inr (JStr '' LIMIT 1'')
   \<and> limit_tail (JStr ''ORDER BY id LIMIT 5'') = Inr (JStr ''ORDER BY id LIMIT 5'')
   \<and> limit_tail (JStr ''order by id limit 5'') = Inr (JStr ''order by id limit 5'')"
  by code_simp


section \<open>insert\<close>

lemma first_seen_snoc:
  "first_seen (xs @ [x]) = (if x \<in> set xs then first_seen xs else first_seen xs @ [x])"
  by (simp add: first_seen_def)

lemma set_first_seen [simp]: "set (first_seen xs) = set xs"
  by (simp add: first_seen_def)

lemma foldl_add_field:
  "list_all plain_key ks \<Longrightarrow> foldl add_field [] ks = first_seen ks"
proof (induction ks rule: rev_induct)
  case Nil
  then show ?case by (simp add: first_seen_def)
next
  case (snoc k ks)
  then show ?case
    by (simp add: first_seen_snoc add_field_def plain_key_def)
qed

lemma collect_fields_plain:
  "list_all plain_row rows \<Longrightarrow>
   collect_fields acc (map JObj rows) = Inr (foldl add_field acc (concat (map (map fst) rows)))"
proof (induction rows arbitrary: acc)
  case Nil
  then show ?case by simp
next
  case (Cons row rows)
  then have "own_keys (map fst row) = map fst row"
    by (simp add: plain_row_def plain_key_def own_keys_no_index list_all_iff)
  with Cons show ?case by simp
qed

lemma plain_keys_concat:
  "list_all plain_row rows \<Longrightarrow> list_all plain_key (concat (map (map fst) rows))"
  by (induction rows) (simp_all add: plain_row_def)

lemma columns_plain:
  "list_all plain_row rows \<Longrightarrow> list_all plain_key (documented_columns rows)"
  using plain_keys_concat [of rows] by (simp add: documented_columns_def list_all_iff)

lemma value_line_plain:
  assumes "list_all plain_key cs"
  shows "value_line cs (JObj row) = Inr (map (documented_cell row) cs)"
proof -
  have "map_exn (\<lambda>f. and_then (get_prop (JObj row) f) (\<lambda>v. Inr (if truthy v then v else JStr []))) cs
          = map_exn (\<lambda>c. Inr (documented_cell row c)) cs"
  proof (rule map_exn_cong)
    fix c assume "c \<in> set cs"
    with assms have "c \<notin> set object_prototype_names"
      by (simp add: list_all_iff plain_key_def)
    then show "and_then (get_prop (JObj row) c) (\<lambda>v. Inr (if truthy v then v else JStr []))
                 = Inr (documented_cell row c)"
      by (simp add: documented_cell_def split: option.splits)
  qed
  then show ?thesis by (simp add: value_line_def map_exn_total)
qed

lemma insert_sql_plain:
  assumes "list_all plain_row rows"
  shows "insert_sql me table (map JObj rows) = documented_insert me table rows"
proof -
  let ?cs = "documented_columns rows"
  have p: "list_all plain_key ?cs"
    using assms by (rule columns_plain)
  have c: "collect_fields [] (map JObj rows) = Inr ?cs"
    using assms by (simp add: collect_fields_plain foldl_add_field plain_keys_concat documented_columns_def)
  have k: "own_keys ?cs = ?cs"
    using p by (simp add: own_keys_no_index plain_key_def list_all_iff)
  have v: "map_exn (value_line ?cs) (map JObj rows) = Inr (map (\<lambda>row. map (documented_cell row) ?cs) rows)"
    using p by (simp add: map_exn_map value_line_plain map_exn_total)
  have l: "map_exn (line_text me) (map (\<lambda>row. map (documented_cell row) ?cs) rows)
             = map_exn (\<lambda>row. and_then (map_exn (\<lambda>c. escape me (documented_cell row c)) ?cs)
                                 (\<lambda>vs. Inr (''('' @ join '','' vs @ '')''))) rows"
    by (simp add: map_exn_map line_text_def)
  show ?thesis
    by (simp add: insert_sql_def c k v l documented_insert_def)
qed

text \<open>
  C7, as the code has it. For every non-empty batch of plain rows, \<open>insert\<close> sends the
  statement of the specification: the column list is the union of the rows' keys in
  first-seen order, and each row gives for each column its escaped value, with the empty
  text for a missing key and for a falsy value. A value on which the escaper raises makes
  the call raise.
\<close>

theorem insert_columns_and_values:
  assumes "list_all plain_row rows" and "rows \<noteq> []"
  shows "insert_js me table (JArr (map JObj rows)) callback
           = run (documented_insert me table rows) (\<lambda>sql. query me [JStr sql] callback)"
proof -
  from assms(2) obtain r rs where "rows = r # rs" by (cases rows) auto
  then have "idx (map JObj rows) 0 = JObj r" by (simp add: idx_def)
  then show ?thesis
    using assms(1) by (simp add: insert_js_def insert_sql_plain)
qed

theorem insert_columns_and_values_witness:
  "list_all plain_row [[(''a'', JNum 1), (''c'', JNum 0)], [(''b'', JStr ''x''), (''c'', JNull)]]
   \<and> [[(''a'', JNum 1), (''c'', JNum 0)], [(''b'', JStr ''x''), (''c'', JNull)]] \<noteq> []
   \<and> insert_js (answering [JNull]) (JStr ''t'')
        (JArr (map JObj [[(''a'', JNum 1), (''c'', JNum 0)], [(''b'', JStr ''x''), (''c'', JNull)]]))
        caller_callback
       = ([Query [JStr (''INSERT INTO `t`(`a`,`c`,`b`) VALUES'' @ [CHR 0x0A]
                        @ ''(1,'' @ [CHR 0x27, CHR 0x27] @ '','' @ [CHR 0x27, CHR 0x27] @ ''),'' @ [CHR 0x0A]
                        @ ''('' @ [CHR 0x27, CHR 0x27] @ '','' @ [CHR 0x27, CHR 0x27] @ '','' @ [CHR 0x27] @ ''x'' @ [CHR 0x27] @ '')'')],
           Release, Callback [JNull]], None)"
proof -
  let ?rows = "[[(''a'', JNum 1), (''c'', JNum 0)], [(''b'', JStr ''x''), (''c'', JNull)]]"
  have p: "list_all plain_row ?rows"
    by code_simp
  have n: "?rows \<noteq> []"
    by simp
  have d: "documented_insert (answering [JNull]) (JStr ''t'') ?rows
       = Inr (''INSERT INTO `t`(`a`,`c`,`b`) VALUES'' @ [CHR 0x0A]
                        @ ''(1,'' @ [CHR 0x27, CHR 0x27] @ '','' @ [CHR 0x27, CHR 0x27] @ ''),'' @ [CHR 0x0A]
                        @ ''('' @ [CHR 0x27, CHR 0x27] @ '','' @ [CHR 0x27, CHR 0x27] @ '','' @ [CHR 0x27] @ ''x'' @ [CHR 0x27] @ '')'')"
    by code_simp
  have "insert_js (answering [JNull]) (JStr ''t'') (JArr (map JObj ?rows)) caller_callback
       = ([Query [JStr (''INSERT INTO `t`(`a`,`c`,`b`) VALUES'' @ [CHR 0x0A]
                        @ ''(1,'' @ [CHR 0x27, CHR 0x27] @ '','' @ [CHR 0x27, CHR 0x27] @ ''),'' @ [CHR 0x0A]
                        @ ''('' @ [CHR 0x27, CHR 0x27] @ '','' @ [CHR 0x27, CHR 0x27] @ '','' @ [CHR 0x27] @ ''x'' @ [CHR 0x27] @ '')'')],
           Release, Callback [JNull]], None)"
    unfolding insert_columns_and_values [OF p n] d
    by (simp add: query_completes answering_def caller_callback_def emit_def)
  with p n show ?thesis by blast
qed

text \<open>
  The claim as the specification states it fails on a key that is an array index, which
  comes first whatever row had it, and on a key that every object inherits, which is
  left out of the column list.
\<close>

theorem insert_columns_counterexample:
  "insert_js (answering [JNull]) (JStr ''t'')
     (JArr [JObj [(''b'', JNum 1)], JObj [(''1'', JNum 2)]]) caller_callback
   = ([Query [JStr (''INSERT INTO `t`(`1`,`b`) VALUES'' @ [CHR 0x0A]
                    @ ''('' @ [CHR 0x27, CHR 0x27] @ '',1),'' @ [CHR 0x0A]
                    @ ''(2,'' @ [CHR 0x27, CHR 0x27] @ '')'')],
       Release, Callback [JNull]], None)
   \<and> insert_js (answering [JNull]) (JStr ''t'')
     (JArr [JObj [(''a'', JNum 1), (''constructor'', JNum 2)]]) caller_callback
   = ([Query [JStr (''INSERT INTO `t`(`a`) VALUES'' @ [CHR 0x0A] @ ''(1)'')],
       Release, Callback [JNull]], None)
   \<and> documented_columns [[(''b'', JNum 1)], [(''1'', JNum 2)]] = [''b'', ''1'']
   \<and> documented_columns [[(''a'', JNum 1), (''constructor'', JNum 2)]] = [''a'', ''constructor'']"
  by code_simp

end
